theory Spec2Isabelle
  imports Complex_Main "HOL-Library.Product_Lexorder" "HOL-Library.Log_Nat"
    "HOL-Library.Monad_Syntax"
begin

section \<open>Python values used by TaskD/task\_d.py\<close>

text \<open>
  The energy report of \<^verbatim>\<open>src/TaskD/task_d.py\<close> is embedded function by function.
  Exceptions are values: every function that can raise returns \<open>error + 'a\<close>, with
  \<open>Inl\<close> the exception. A Python \<open>str\<close> is a \<open>string\<close> whose characters are the
  code points below 256.
\<close>

datatype error = ValueError | IndexError | KeyError

subsection \<open>Strings\<close>

text \<open>The characters \<open>str.strip()\<close>, \<open>float()\<close> and the regular expression
  class \<open>\s\<close> treat as whitespace (code points below 256).\<close>

definition is_space :: "char \<Rightarrow> bool" where
  "is_space c \<longleftrightarrow> c \<in> set [CHR 0x09, CHR 0x0A, CHR 0x0B, CHR 0x0C, CHR 0x0D,
     CHR 0x1C, CHR 0x1D, CHR 0x1E, CHR 0x1F, CHR 0x20, CHR 0x85, CHR 0xA0]"

definition strip :: "string \<Rightarrow> string" where
  "strip s = rev (dropWhile is_space (rev (dropWhile is_space s)))"

text \<open>\<open>s.replace(a, b)\<close> for one-character \<open>a\<close> and \<open>b\<close>.\<close>

definition replace_char :: "char \<Rightarrow> char \<Rightarrow> string \<Rightarrow> string" where
  "replace_char a b s = map (\<lambda>c. if c = a then b else c) s"

definition is_digit :: "char \<Rightarrow> bool" where
  "is_digit c \<longleftrightarrow> c \<in> set ''0123456789''"

text \<open>The value of a decimal digit is its position among the ten digits.\<close>

definition digit_val :: "char \<Rightarrow> nat" where
  "digit_val c = length (takeWhile (\<lambda>d. d \<noteq> c) ''0123456789'')"

definition digit_char :: "nat \<Rightarrow> char" where
  "digit_char n = ''0123456789'' ! (n mod 10)"

text \<open>\<open>int(ds)\<close> for a string of decimal digits.\<close>

definition nat_of_digits :: "string \<Rightarrow> nat" where
  "nat_of_digits ds = foldl (\<lambda>a c. 10 * a + digit_val c) 0 ds"

text \<open>\<open>str(n)\<close> for a natural number.\<close>

fun string_of_nat :: "nat \<Rightarrow> string" where
  "string_of_nat n =
     (if n < 10 then [digit_char n] else string_of_nat (n div 10) @ [digit_char n])"

declare string_of_nat.simps [simp del]

definition ljust :: "nat \<Rightarrow> string \<Rightarrow> string" where
  "ljust w s = s @ replicate (w - length s) CHR '' ''"

definition rjust :: "nat \<Rightarrow> string \<Rightarrow> string" where
  "rjust w s = replicate (w - length s) CHR '' '' @ s"

text \<open>Zero-padded decimal fields, as \<open>%d\<close>, \<open>%m\<close> and \<open>%Y\<close> of \<open>strftime\<close> print them.\<close>

definition zfill :: "nat \<Rightarrow> string \<Rightarrow> string" where
  "zfill w s = replicate (w - length s) CHR ''0'' @ s"

subsection \<open>Calendar dates: \<open>datetime.date\<close> and \<open>datetime.datetime\<close>\<close>

text \<open>A \<open>date\<close> is (year, month, day); Python compares dates as these triples, which
  is the lexicographic order of the product type.\<close>

type_synonym date = "nat \<times> nat \<times> nat"

record datetime =
  dt_year :: nat
  dt_month :: nat
  dt_day :: nat
  dt_hour :: nat
  dt_minute :: nat
  dt_second :: nat
  dt_microsecond :: nat

definition date_of :: "datetime \<Rightarrow> date" where
  "date_of dt = (dt_year dt, dt_month dt, dt_day dt)"

definition is_leap :: "nat \<Rightarrow> bool" where
  "is_leap y \<longleftrightarrow> y mod 4 = 0 \<and> (y mod 100 \<noteq> 0 \<or> y mod 400 = 0)"

definition days_in_month :: "nat \<Rightarrow> nat \<Rightarrow> nat" where
  "days_in_month y m =
     (if m = 2 then (if is_leap y then 29 else 28)
      else if m = 4 \<or> m = 6 \<or> m = 9 \<or> m = 11 then 30 else 31)"

definition days_before_year :: "nat \<Rightarrow> nat" where
  "days_before_year y =
     (let p = y - 1 in p * 365 + p div 4 + p div 400 - p div 100)"

definition days_before_month :: "nat \<Rightarrow> nat \<Rightarrow> nat" where
  "days_before_month y m = sum_list (map (days_in_month y) [1..<m])"

definition toordinal :: "date \<Rightarrow> nat" where
  "toordinal dte = (case dte of (y, m, d) \<Rightarrow> days_before_year y + days_before_month y m + d)"

text \<open>\<open>date.weekday()\<close>: Monday is 0, Sunday is 6.\<close>

definition weekday :: "date \<Rightarrow> nat" where
  "weekday dte = (toordinal dte + 6) mod 7"

text \<open>The constructor \<open>datetime(y, m, d, H, M, S, us)\<close> raises \<open>ValueError\<close> for a
  field out of range.\<close>

definition new_datetime ::
  "nat \<Rightarrow> nat \<Rightarrow> nat \<Rightarrow> nat \<Rightarrow> nat \<Rightarrow> nat \<Rightarrow> nat \<Rightarrow> error + datetime" where
  "new_datetime y m d H M S us =
     (if 1 \<le> y \<and> y \<le> 9999 \<and> 1 \<le> m \<and> m \<le> 12 \<and> 1 \<le> d \<and> d \<le> days_in_month y m
         \<and> H \<le> 23 \<and> M \<le> 59 \<and> S \<le> 59 \<and> us \<le> 999999
      then Inr \<lparr>dt_year = y, dt_month = m, dt_day = d, dt_hour = H, dt_minute = M,
                dt_second = S, dt_microsecond = us\<rparr>
      else Inl ValueError)"

text \<open>\<open>d.strftime("%d.%m.%Y")\<close>.\<close>

definition strftime_dmy :: "date \<Rightarrow> string" where
  "strftime_dmy dte = (case dte of (y, m, d) \<Rightarrow>
     zfill 2 (string_of_nat d) @ ''.'' @ zfill 2 (string_of_nat m) @ ''.''
       @ zfill 4 (string_of_nat y))"

subsection \<open>\<open>datetime.strptime\<close> for the two formats of \<open>parse_timestamp\<close>\<close>

text \<open>
  \<open>strptime\<close> compiles the format into a regular expression, takes the first match
  (alternatives in order, with backtracking) anchored at the start, and raises
  \<open>ValueError\<close> when there is no match or when the match leaves text unconsumed.
  A matcher returns the possible (value, rest) pairs in the order the regular expression
  engine tries them.
\<close>

type_synonym 'a matcher = "string \<Rightarrow> ('a \<times> string) list"

definition re_digits2 :: "(nat \<Rightarrow> nat \<Rightarrow> bool) \<Rightarrow> nat matcher" where
  "re_digits2 P s =
     (case s of
        a # b # r \<Rightarrow>
          if is_digit a \<and> is_digit b \<and> P (digit_val a) (digit_val b)
          then [(10 * digit_val a + digit_val b, r)] else []
      | _ \<Rightarrow> [])"

definition re_digit1 :: "(nat \<Rightarrow> bool) \<Rightarrow> nat matcher" where
  "re_digit1 P s =
     (case s of
        a # r \<Rightarrow> if is_digit a \<and> P (digit_val a) then [(digit_val a, r)] else []
      | _ \<Rightarrow> [])"

text \<open>\<open>%Y\<close> is \<open>\d\d\d\d\<close>.\<close>

definition re_Y :: "nat matcher" where
  "re_Y s =
     (case s of
        a # b # c # d # r \<Rightarrow>
          if is_digit a \<and> is_digit b \<and> is_digit c \<and> is_digit d
          then [(1000 * digit_val a + 100 * digit_val b + 10 * digit_val c + digit_val d, r)]
          else []
      | _ \<Rightarrow> [])"

text \<open>\<open>%m\<close> is \<open>1[0-2]|0[1-9]|[1-9]\<close>.\<close>

definition re_m :: "nat matcher" where
  "re_m s = re_digits2 (\<lambda>a b. a = 1 \<and> b \<le> 2) s @ re_digits2 (\<lambda>a b. a = 0 \<and> 1 \<le> b) s
     @ re_digit1 (\<lambda>a. 1 \<le> a) s"

text \<open>\<open>%d\<close> is \<open>3[0-1]|[1-2]\d|0[1-9]|[1-9]| [1-9]\<close>.\<close>

definition re_d :: "nat matcher" where
  "re_d s = re_digits2 (\<lambda>a b. a = 3 \<and> b \<le> 1) s @ re_digits2 (\<lambda>a b. a = 1 \<or> a = 2) s
     @ re_digits2 (\<lambda>a b. a = 0 \<and> 1 \<le> b) s @ re_digit1 (\<lambda>a. 1 \<le> a) s
     @ (case s of c # r \<Rightarrow> if c = CHR '' '' then re_digit1 (\<lambda>a. 1 \<le> a) r else [] | _ \<Rightarrow> [])"

text \<open>\<open>%H\<close> is \<open>2[0-3]|[0-1]\d|\d\<close>.\<close>

definition re_H :: "nat matcher" where
  "re_H s = re_digits2 (\<lambda>a b. a = 2 \<and> b \<le> 3) s @ re_digits2 (\<lambda>a b. a \<le> 1) s
     @ re_digit1 (\<lambda>a. True) s"

text \<open>\<open>%M\<close> is \<open>[0-5]\d|\d\<close>.\<close>

definition re_M :: "nat matcher" where
  "re_M s = re_digits2 (\<lambda>a b. a \<le> 5) s @ re_digit1 (\<lambda>a. True) s"

text \<open>\<open>%S\<close> is \<open>6[0-1]|[0-5]\d|\d\<close>.\<close>

definition re_S :: "nat matcher" where
  "re_S s = re_digits2 (\<lambda>a b. a = 6 \<and> b \<le> 1) s @ re_digits2 (\<lambda>a b. a \<le> 5) s
     @ re_digit1 (\<lambda>a. True) s"

definition re_lit :: "char \<Rightarrow> unit matcher" where
  "re_lit c s = (case s of x # r \<Rightarrow> if x = c then [((), r)] else [] | [] \<Rightarrow> [])"

text \<open>The blank of the format is \<open>\s+\<close>. It is followed by a digit, so only the
  longest run of whitespace can lead to a match.\<close>

definition re_spaces :: "unit matcher" where
  "re_spaces s = (if takeWhile is_space s = [] then [] else [((), dropWhile is_space s)])"

text \<open>The matches of \<open>%Y-%m-%d %H:%M\<close>, written from right to left: the time after
  the day, the day and what follows it, the month and what follows it, the whole.\<close>

definition re_time_after :: "nat \<Rightarrow> nat \<Rightarrow> nat \<Rightarrow> (nat \<times> nat \<times> nat \<times> nat \<times> nat) matcher" where
  "re_time_after y m d s5 = do {
     (_, s6) \<leftarrow> re_spaces s5;
     (H, s7) \<leftarrow> re_H s6;
     (_, s8) \<leftarrow> re_lit CHR '':'' s7;
     (M, s9) \<leftarrow> re_M s8;
     [((y, m, d, H, M), s9)]
   }"

definition re_day_on :: "nat \<Rightarrow> nat \<Rightarrow> (nat \<times> nat \<times> nat \<times> nat \<times> nat) matcher" where
  "re_day_on y m s4 = do {
     (d, s5) \<leftarrow> re_d s4;
     re_time_after y m d s5
   }"

definition re_month_on :: "nat \<Rightarrow> (nat \<times> nat \<times> nat \<times> nat \<times> nat) matcher" where
  "re_month_on y s2 = do {
     (m, s3) \<leftarrow> re_m s2;
     (_, s4) \<leftarrow> re_lit CHR ''-'' s3;
     re_day_on y m s4
   }"

definition re_date_hm :: "(nat \<times> nat \<times> nat \<times> nat \<times> nat) matcher" where
  "re_date_hm s0 = do {
     (y, s1) \<leftarrow> re_Y s0;
     (_, s2) \<leftarrow> re_lit CHR ''-'' s1;
     re_month_on y s2
   }"

text \<open>The matches of \<open>%Y-%m-%d %H:%M:%S\<close>.\<close>

definition re_date_hms :: "(nat \<times> nat \<times> nat \<times> nat \<times> nat \<times> nat) matcher" where
  "re_date_hms s0 = do {
     ((y, m, d, H, M), s9) \<leftarrow> re_date_hm s0;
     (_, s10) \<leftarrow> re_lit CHR '':'' s9;
     (S, s11) \<leftarrow> re_S s10;
     [((y, m, d, H, M, S), s11)]
   }"

definition strptime_hms :: "string \<Rightarrow> error + datetime" where
  "strptime_hms text =
     (case re_date_hms text of
        [] \<Rightarrow> Inl ValueError
      | ((y, m, d, H, M, S), rest) # _ \<Rightarrow>
          if rest \<noteq> [] then Inl ValueError else new_datetime y m d H M S 0)"

definition strptime_hm :: "string \<Rightarrow> error + datetime" where
  "strptime_hm text =
     (case re_date_hm text of
        [] \<Rightarrow> Inl ValueError
      | ((y, m, d, H, M), rest) # _ \<Rightarrow>
          if rest \<noteq> [] then Inl ValueError else new_datetime y m d H M 0 0)"

subsection \<open>\<open>datetime.fromisoformat\<close>\<close>

text \<open>
  The fallback follows the format the library documents for \<open>fromisoformat\<close>,
  \<^verbatim>\<open>YYYY-MM-DD[*HH[:MM[:SS[.fff[fff]]]][+HH:MM[:SS[.ffffff]]]]\<close>, where \<open>*\<close> is any one
  character. A UTC offset is checked and then dropped: only the calendar date of the
  result is used by the program.
\<close>

definition digits_at :: "string \<Rightarrow> nat \<Rightarrow> nat \<Rightarrow> nat option" where
  "digits_at s i n =
     (let ds = take n (drop i s)
      in if length ds = n \<and> (\<forall>c \<in> set ds. is_digit c) then Some (nat_of_digits ds) else None)"

definition char_at :: "string \<Rightarrow> nat \<Rightarrow> char \<Rightarrow> bool" where
  "char_at s i c \<longleftrightarrow> i < length s \<and> s ! i = c"

definition parse_isoformat_date :: "string \<Rightarrow> (nat \<times> nat \<times> nat) option" where
  "parse_isoformat_date s =
     (case (digits_at s 0 4, digits_at s 5 2, digits_at s 8 2) of
        (Some y, Some m, Some d) \<Rightarrow>
          if length s = 10 \<and> char_at s 4 CHR ''-'' \<and> char_at s 7 CHR ''-''
          then Some (y, m, d) else None
      | _ \<Rightarrow> None)"

text \<open>\<open>HH[:MM[:SS[.fff[fff]]]]\<close>, giving hour, minute, second and microsecond.\<close>

definition parse_hh_mm_ss_ff :: "string \<Rightarrow> (nat \<times> nat \<times> nat \<times> nat) option" where
  "parse_hh_mm_ss_ff s =
     (let n = length s in
      if n = 2 then
        (case digits_at s 0 2 of Some H \<Rightarrow> Some (H, 0, 0, 0) | None \<Rightarrow> None)
      else if n = 5 \<and> char_at s 2 CHR '':'' then
        (case (digits_at s 0 2, digits_at s 3 2) of
           (Some H, Some M) \<Rightarrow> Some (H, M, 0, 0) | _ \<Rightarrow> None)
      else if (n = 8 \<or> n = 12 \<or> n = 15) \<and> char_at s 2 CHR '':'' \<and> char_at s 5 CHR '':''
              \<and> (n = 8 \<or> char_at s 8 CHR ''.'') then
        (case (digits_at s 0 2, digits_at s 3 2, digits_at s 6 2,
               if n = 8 then Some 0
               else if n = 12 then map_option (\<lambda>f. f * 1000) (digits_at s 9 3)
               else digits_at s 9 6) of
           (Some H, Some M, Some S, Some us) \<Rightarrow> Some (H, M, S, us) | _ \<Rightarrow> None)
      else None)"

text \<open>A UTC offset \<open>+HH:MM[:SS[.ffffff]]\<close> must be shorter than one day.\<close>

definition valid_utcoffset :: "string \<Rightarrow> bool" where
  "valid_utcoffset s =
     (case s of
        [] \<Rightarrow> False
      | c # r \<Rightarrow>
          (c = CHR ''+'' \<or> c = CHR ''-'') \<and> (length r = 5 \<or> length r = 8 \<or> length r = 15) \<and>
          (case parse_hh_mm_ss_ff r of
             None \<Rightarrow> False
           | Some (H, M, S, us) \<Rightarrow> H * 3600 + M * 60 + S < 86400))"

definition parse_isoformat_time :: "string \<Rightarrow> (nat \<times> nat \<times> nat \<times> nat) option" where
  "parse_isoformat_time s =
     (let no_sign = (\<lambda>c. c \<noteq> CHR ''+'' \<and> c \<noteq> CHR ''-'');
          tstr = takeWhile no_sign s;
          tz = dropWhile no_sign s
      in if tz = [] \<or> valid_utcoffset tz then parse_hh_mm_ss_ff tstr else None)"

definition fromisoformat :: "string \<Rightarrow> error + datetime" where
  "fromisoformat s =
     (case parse_isoformat_date (take 10 s) of
        None \<Rightarrow> Inl ValueError
      | Some (y, m, d) \<Rightarrow>
          if length s = 10 then new_datetime y m d 0 0 0 0
          else (case parse_isoformat_time (drop 11 s) of
                  None \<Rightarrow> Inl ValueError
                | Some (H, M, S, us) \<Rightarrow> new_datetime y m d H M S us))"

subsection \<open>Python floats\<close>

text \<open>
  A Python \<open>float\<close> is an IEEE 754 binary64 value: a finite value (kept as the exact
  rational it denotes, \<open>Finite 0\<close> being \<open>+0.0\<close>), negative zero, an infinity or
  not-a-number. Arithmetic computes the exact result and rounds it to the nearest
  representable value, ties to the even significand.
\<close>

datatype pyfloat = Finite rat | NegZero | PosInf | NegInf | NaN

definition pow2 :: "int \<Rightarrow> rat" where
  "pow2 e = (if 0 \<le> e then 2 ^ nat e else 1 / 2 ^ nat (- e))"

definition pow10 :: "int \<Rightarrow> rat" where
  "pow10 e = (if 0 \<le> e then 10 ^ nat e else 1 / 10 ^ nat (- e))"

text \<open>For \<open>x > 0\<close>, \<open>ilog2 x\<close> is the exponent \<open>e\<close> with \<open>2\<^sup>e \<le> x < 2\<^sup>e\<^sup>+\<^sup>1\<close>.\<close>

definition ilog2 :: "rat \<Rightarrow> int" where
  "ilog2 x = (if 1 \<le> x then bitlen \<lfloor>x\<rfloor> - 1 else - bitlen (\<lceil>1 / x\<rceil> - 1))"

definition round_half_even :: "rat \<Rightarrow> int" where
  "round_half_even x =
     (let n = \<lfloor>x\<rfloor>; r = x - of_int n
      in if r < 1 / 2 then n else if 1 / 2 < r then n + 1 else if even n then n else n + 1)"

text \<open>The nearest binary64 magnitude of \<open>x > 0\<close>: a 53-bit significand times a power
  of two, the exponent of the leading bit at least \<open>-1022\<close> (below that, numbers are
  subnormal and evenly spaced).\<close>

definition round_pos :: "rat \<Rightarrow> rat" where
  "round_pos x =
     (let e = max (ilog2 x) (- 1022); q = pow2 (e - 52)
      in of_int (round_half_even (x / q)) * q)"

definition round_float :: "rat \<Rightarrow> pyfloat" where
  "round_float x =
     (if x = 0 then Finite 0
      else if 0 < x then
        (let r = round_pos x in if pow2 1024 \<le> r then PosInf else Finite r)
      else
        (let r = round_pos (- x)
         in if pow2 1024 \<le> r then NegInf else if r = 0 then NegZero else Finite (- r)))"

text \<open>\<open>x + y\<close>.\<close>

fun fadd :: "pyfloat \<Rightarrow> pyfloat \<Rightarrow> pyfloat" where
  "fadd NaN y = NaN"
| "fadd x NaN = NaN"
| "fadd PosInf NegInf = NaN"
| "fadd NegInf PosInf = NaN"
| "fadd PosInf y = PosInf"
| "fadd x PosInf = PosInf"
| "fadd NegInf y = NegInf"
| "fadd x NegInf = NegInf"
| "fadd NegZero y = y"
| "fadd x NegZero = x"
| "fadd (Finite a) (Finite b) = round_float (a + b)"

text \<open>\<open>x / 1000.0\<close>.\<close>

definition div_1000 :: "pyfloat \<Rightarrow> pyfloat" where
  "div_1000 x = (case x of Finite a \<Rightarrow> round_float (a / 1000) | _ \<Rightarrow> x)"

text \<open>\<open>x <= y\<close>: false as soon as one side is not-a-number; the two zeros are equal.\<close>

definition fle :: "pyfloat \<Rightarrow> pyfloat \<Rightarrow> bool" where
  "fle x y =
     (case (x, y) of
        (NaN, _) \<Rightarrow> False
      | (_, NaN) \<Rightarrow> False
      | (NegInf, _) \<Rightarrow> True
      | (_, PosInf) \<Rightarrow> True
      | (PosInf, _) \<Rightarrow> False
      | (_, NegInf) \<Rightarrow> False
      | (Finite a, Finite b) \<Rightarrow> a \<le> b
      | (Finite a, NegZero) \<Rightarrow> a \<le> 0
      | (NegZero, Finite b) \<Rightarrow> 0 \<le> b
      | (NegZero, NegZero) \<Rightarrow> True)"

text \<open>
  \<open>float(s)\<close>: surrounding whitespace is ignored; after an optional sign come
  \<open>inf\<close>, \<open>infinity\<close> or \<open>nan\<close> in any case, or a decimal number with an optional
  fraction and exponent, whose groups of digits may hold single underscores between
  digits. The decimal value is rounded to the nearest float.
\<close>

definition lower_char :: "char \<Rightarrow> char" where
  "lower_char c =
     (case map_of (zip ''ABCDEFGHIJKLMNOPQRSTUVWXYZ'' ''abcdefghijklmnopqrstuvwxyz'') c of
        Some l \<Rightarrow> l | None \<Rightarrow> c)"

fun digit_run :: "string \<Rightarrow> string \<times> string" where
  "digit_run [] = ([], [])"
| "digit_run [c] = (if is_digit c then ([c], []) else ([], [c]))"
| "digit_run (c # d # r) =
     (if is_digit c then (case digit_run (d # r) of (ds, rest) \<Rightarrow> (c # ds, rest))
      else if c = CHR ''_'' \<and> is_digit d then (case digit_run r of (ds, rest) \<Rightarrow> (d # ds, rest))
      else ([], c # d # r))"

definition digitpart :: "string \<Rightarrow> (string \<times> string) option" where
  "digitpart s =
     (case s of
        [] \<Rightarrow> None
      | c # r \<Rightarrow>
          if is_digit c then (case digit_run r of (ds, rest) \<Rightarrow> Some (c # ds, rest)) else None)"

definition parse_exponent :: "string \<Rightarrow> int option" where
  "parse_exponent s =
     (case s of
        [] \<Rightarrow> Some 0
      | c # r \<Rightarrow>
          if c = CHR ''e'' \<or> c = CHR ''E'' then
            (let (neg, u) = (case r of
                   [] \<Rightarrow> (False, r)
                 | x # r' \<Rightarrow> if x = CHR ''-'' then (True, r') else if x = CHR ''+'' then (False, r')
                             else (False, r))
             in case digitpart u of
                  Some (ds, []) \<Rightarrow> Some (if neg then - int (nat_of_digits ds) else int (nat_of_digits ds))
                | _ \<Rightarrow> None)
          else None)"

definition parse_number :: "string \<Rightarrow> rat option" where
  "parse_number u =
     (let (ip, r1) = (case digitpart u of Some (ds, r) \<Rightarrow> (ds, r) | None \<Rightarrow> ([], u));
          (fp, r2) = (case r1 of
             [] \<Rightarrow> ([], r1)
           | c # r \<Rightarrow>
               if c = CHR ''.'' then (case digitpart r of Some (ds, r') \<Rightarrow> (ds, r') | None \<Rightarrow> ([], r))
               else ([], r1))
      in if ip = [] \<and> fp = [] then None
         else (case parse_exponent r2 of
                 None \<Rightarrow> None
               | Some ex \<Rightarrow> Some (of_nat (nat_of_digits (ip @ fp)) * pow10 (ex - int (length fp)))))"

definition py_float :: "string \<Rightarrow> error + pyfloat" where
  "py_float s =
     (let t = strip s;
          (neg, u) = (case t of
             [] \<Rightarrow> (False, t)
           | c # r \<Rightarrow> if c = CHR ''-'' then (True, r) else if c = CHR ''+'' then (False, r)
                      else (False, t));
          l = map lower_char u
      in if l = ''inf'' \<or> l = ''infinity'' then Inr (if neg then NegInf else PosInf)
         else if l = ''nan'' then Inr NaN
         else (case parse_number u of
                 None \<Rightarrow> Inl ValueError
               | Some x \<Rightarrow>
                   Inr (if neg then (if x = 0 then NegZero else round_float (- x))
                        else round_float x)))"

text \<open>\<open>f"{value:.2f}"\<close>: the exact value rounded to two decimals, ties to even.\<close>

definition format_2f :: "pyfloat \<Rightarrow> string" where
  "format_2f x =
     (case x of
        NaN \<Rightarrow> ''nan''
      | PosInf \<Rightarrow> ''inf''
      | NegInf \<Rightarrow> ''-inf''
      | NegZero \<Rightarrow> ''-0.00''
      | Finite r \<Rightarrow>
          (let n = nat (round_half_even (\<bar>r\<bar> * 100))
           in (if r < 0 then ''-'' else []) @ string_of_nat (n div 100) @ ''.''
                @ [digit_char (n div 10), digit_char n]))"

section \<open>The program\<close>

subsection \<open>\<open>parse_timestamp\<close>\<close>

definition parse_timestamp :: "string \<Rightarrow> error + datetime" where
  "parse_timestamp ts =
     (let text = replace_char CHR ''T'' CHR '' '' (strip ts) in
      case strptime_hms text of
        Inr dt \<Rightarrow> Inr dt
      | Inl _ \<Rightarrow>
          (case strptime_hm text of
             Inr dt \<Rightarrow> Inr dt
           | Inl _ \<Rightarrow> fromisoformat (strip ts)))"

subsection \<open>\<open>FINNISH_WEEKDAYS\<close> and \<open>to_finnish_number\<close>\<close>

definition FINNISH_WEEKDAYS :: "nat \<rightharpoonup> string" where
  "FINNISH_WEEKDAYS = map_of
     [(0, ''maanantai''), (1, ''tiistai''), (2, ''keskiviikko''), (3, ''torstai''),
      (4, ''perjantai''), (5, ''lauantai''), (6, ''sunnuntai'')]"

definition to_finnish_number :: "pyfloat \<Rightarrow> string" where
  "to_finnish_number v = replace_char CHR ''.'' CHR '','' (format_2f v)"

subsection \<open>\<open>is_header_row\<close>\<close>

text \<open>\<open>row[0]\<close> raises \<open>IndexError\<close> on an empty row; \<open>except Exception\<close> catches
  it like the \<open>ValueError\<close> of \<open>parse_timestamp\<close>.\<close>

definition is_header_row :: "string list \<Rightarrow> bool" where
  "is_header_row row =
     (case row of
        [] \<Rightarrow> True
      | f # _ \<Rightarrow> (case parse_timestamp f of Inr _ \<Rightarrow> False | Inl _ \<Rightarrow> True))"

subsection \<open>\<open>compute_daily_totals\<close>\<close>

text \<open>A \<open>dict\<close> keeps its keys in insertion order: an association list with distinct
  keys, a new key appended at the end.\<close>

type_synonym ('k, 'v) dict = "('k \<times> 'v) list"

definition to_float :: "string \<Rightarrow> error + pyfloat" where
  "to_float s = py_float (replace_char CHR '','' CHR ''.'' s)"

text \<open>The six conversions of lines 112 to 117, in order; the first failure raises.\<close>

fun to_floats :: "string list \<Rightarrow> error + pyfloat list" where
  "to_floats [] = Inr []"
| "to_floats (s # ss) =
     (case to_float s of
        Inl e \<Rightarrow> Inl e
      | Inr v \<Rightarrow> (case to_floats ss of Inl e \<Rightarrow> Inl e | Inr vs \<Rightarrow> Inr (v # vs)))"

text \<open>\<open>totals_wh[day]\<close> on the \<open>defaultdict\<close>: a missing day gets \<open>[0.0] * 6\<close>.\<close>

definition getitem_default :: "(date, pyfloat list) dict \<Rightarrow> date \<Rightarrow> (date, pyfloat list) dict" where
  "getitem_default totals_wh day =
     (if day \<in> fst ` set totals_wh then totals_wh
      else totals_wh @ [(day, replicate 6 (Finite 0))])"

text \<open>\<open>totals_wh[day][i] += v\<close>.\<close>

definition add_at ::
  "(date, pyfloat list) dict \<Rightarrow> date \<Rightarrow> nat \<Rightarrow> pyfloat \<Rightarrow> (date, pyfloat list) dict" where
  "add_at totals_wh day i v =
     map (\<lambda>(k, vals). if k = day then (k, vals[i := fadd (vals ! i) v]) else (k, vals))
       (getitem_default totals_wh day)"

text \<open>Lines 119 to 124: the six values are added to channels 0 to 5 of the day.\<close>

definition add_row ::
  "(date, pyfloat list) dict \<Rightarrow> date \<Rightarrow> pyfloat list \<Rightarrow> (date, pyfloat list) dict" where
  "add_row totals_wh day vs =
     foldl (\<lambda>t (i, v). add_at t day i v) totals_wh (zip [0 ..< 6] vs)"

text \<open>The loop of lines 99 to 124, from the totals accumulated so far.\<close>

fun accumulate ::
  "(date, pyfloat list) dict \<Rightarrow> string list list \<Rightarrow> error + (date, pyfloat list) dict" where
  "accumulate totals_wh [] = Inr totals_wh"
| "accumulate totals_wh (row # rows) =
     (if length row < 7 then accumulate totals_wh rows
      else
        (case parse_timestamp (row ! 0) of
           Inl e \<Rightarrow> Inl e
         | Inr dt \<Rightarrow>
             (case to_floats (take 6 (drop 1 row)) of
                Inl e \<Rightarrow> Inl e
              | Inr vs \<Rightarrow> accumulate (add_row totals_wh (date_of dt) vs) rows)))"

type_synonym kwh6 = "pyfloat \<times> pyfloat \<times> pyfloat \<times> pyfloat \<times> pyfloat \<times> pyfloat"

definition to_kwh :: "pyfloat list \<Rightarrow> kwh6" where
  "to_kwh vals =
     (div_1000 (vals ! 0), div_1000 (vals ! 1), div_1000 (vals ! 2),
      div_1000 (vals ! 3), div_1000 (vals ! 4), div_1000 (vals ! 5))"

definition compute_daily_totals :: "string list list \<Rightarrow> error + (date, kwh6) dict" where
  "compute_daily_totals rows =
     (case accumulate [] rows of
        Inl e \<Rightarrow> Inl e
      | Inr totals_wh \<Rightarrow> Inr (map (\<lambda>(d, vals). (d, to_kwh vals)) totals_wh))"

subsection \<open>\<open>print_report\<close>\<close>

text \<open>The printed lines, in order. The first \<open>print\<close> ends in a newline of its own and
  so prints an empty line after the title.\<close>

definition banner :: "string list" where
  "banner =
     [''Week 42 electricity consumption and production (kWh, by phase)'',
      [],
      ''Day          Date        Consumption [kWh]               Production [kWh]'',
      ''            (dd.mm.yyyy)  v1      v2      v3             v1     v2     v3'',
      replicate 75 CHR ''-'']"

definition report_line :: "string \<Rightarrow> date \<Rightarrow> kwh6 \<Rightarrow> string" where
  "report_line weekday_name d tot =
     (case tot of (c1, c2, c3, p1, p2, p3) \<Rightarrow>
        ljust 12 weekday_name @ '' '' @ ljust 10 (strftime_dmy d) @ ''   ''
        @ rjust 6 (to_finnish_number c1) @ ''  '' @ rjust 6 (to_finnish_number c2) @ ''  ''
        @ rjust 6 (to_finnish_number c3) @ ''         ''
        @ rjust 6 (to_finnish_number p1) @ '' '' @ rjust 6 (to_finnish_number p2) @ '' ''
        @ rjust 6 (to_finnish_number p3))"

text \<open>The body of the loop over \<open>sorted(daily.keys())\<close>; a missing key of either
  dictionary raises \<open>KeyError\<close>.\<close>

fun report_lines :: "(date, kwh6) dict \<Rightarrow> date list \<Rightarrow> error + string list" where
  "report_lines daily [] = Inr []"
| "report_lines daily (d # ds) =
     (case FINNISH_WEEKDAYS (weekday d) of
        None \<Rightarrow> Inl KeyError
      | Some weekday_name \<Rightarrow>
          (case map_of daily d of
             None \<Rightarrow> Inl KeyError
           | Some tot \<Rightarrow>
               (case report_lines daily ds of
                  Inl e \<Rightarrow> Inl e
                | Inr ls \<Rightarrow> Inr (report_line weekday_name d tot # ls))))"

text \<open>The dates in the order the report prints them: \<open>sorted(daily.keys())\<close>.\<close>

definition report_dates :: "(date, kwh6) dict \<Rightarrow> date list" where
  "report_dates daily = sort (map fst daily)"

definition print_report :: "(date, kwh6) dict \<Rightarrow> error + string list" where
  "print_report daily =
     (case report_lines daily (report_dates daily) of
        Inl e \<Rightarrow> Inl e
      | Inr ls \<Rightarrow> Inr (banner @ ls))"

subsection \<open>\<open>main\<close>\<close>

text \<open>Lines 178 to 180: the rows that \<open>main\<close> hands to \<open>compute_daily_totals\<close>.\<close>

definition remove_header :: "string list list \<Rightarrow> string list list" where
  "remove_header rows = (if rows \<noteq> [] \<and> is_header_row (rows ! 0) then drop 1 rows else rows)"

text \<open>\<open>main\<close> from the rows \<open>read_data\<close> returned, giving the printed lines.\<close>

definition main :: "string list list \<Rightarrow> error + string list" where
  "main rows =
     (case compute_daily_totals (remove_header rows) of
        Inl e \<Rightarrow> Inl e
      | Inr daily_totals \<Rightarrow> print_report daily_totals)"

section \<open>The end-to-end scenario of the specification\<close>

text \<open>The three input rows, as \<open>read_data\<close> returns them: split at the commas, each
  field stripped.\<close>

definition scenario_rows :: "string list list" where
  "scenario_rows =
     [[''2025-10-13 00:00:00'', ''100'', ''200'', ''300'', ''50'', ''60'', ''70''],
      [''2025-10-13 00:15:00'', ''100'', ''200'', ''300'', ''50'', ''60'', ''70''],
      [''2025-10-14 00:00:00'', ''500'', ''0'', ''0'', ''0'', ''0'', ''0'']]"

text \<open>The expected totals: the floats that the literals \<open>0.20\<close>, \<open>0.40\<close>, \<open>0.60\<close>,
  \<open>0.10\<close>, \<open>0.12\<close>, \<open>0.14\<close> and \<open>0.50\<close>, \<open>0.00\<close> denote, written as exact fractions.\<close>

definition scenario_totals :: "(date, kwh6) dict" where
  "scenario_totals =
     [((2025, 10, 13),
       (Finite (3602879701896397 / 18014398509481984), Finite (3602879701896397 / 9007199254740992),
        Finite (5404319552844595 / 9007199254740992), Finite (3602879701896397 / 36028797018963968),
        Finite (1080863910568919 / 9007199254740992), Finite (1261007895663739 / 9007199254740992))),
      ((2025, 10, 14), (Finite (1 / 2), Finite 0, Finite 0, Finite 0, Finite 0, Finite 0))]"

section \<open>Auxiliary notions of the properties\<close>

text \<open>\<open>math.isfinite(x)\<close>: neither an infinity nor not-a-number.\<close>

definition is_finite :: "pyfloat \<Rightarrow> bool" where
  "is_finite x = (case x of Finite _ \<Rightarrow> True | NegZero \<Rightarrow> True | _ \<Rightarrow> False)"

text \<open>A year, a month and a day that \<open>datetime\<close> accepts as a calendar date.\<close>

definition valid_date :: "nat \<Rightarrow> nat \<Rightarrow> nat \<Rightarrow> bool" where
  "valid_date y m d \<longleftrightarrow> 1 \<le> y \<and> y \<le> 9999 \<and> 1 \<le> m \<and> m \<le> 12 \<and> 1 \<le> d \<and> d \<le> days_in_month y m"

text \<open>\<open>0.0 + v\<^sub>1 + \<dots> + v\<^sub>n\<close>, added from the left like the repeated \<open>+=\<close> on a sum that
  starts at \<open>0.0\<close>.\<close>

definition fsum :: "pyfloat list \<Rightarrow> pyfloat" where
  "fsum vs = foldl fadd (Finite 0) vs"

text \<open>
  The records that the loop of lines 99 to 117 reads from the rows, in order: the date and
  the six values of every row with at least 7 fields. The first field that does not parse
  raises.
\<close>

fun records :: "string list list \<Rightarrow> error + (date \<times> pyfloat list) list" where
  "records [] = Inr []"
| "records (row # rows) =
     (if length row < 7 then records rows
      else
        (case parse_timestamp (row ! 0) of
           Inl e \<Rightarrow> Inl e
         | Inr dt \<Rightarrow>
             (case to_floats (take 6 (drop 1 row)) of
                Inl e \<Rightarrow> Inl e
              | Inr vs \<Rightarrow>
                  (case records rows of
                     Inl e \<Rightarrow> Inl e
                   | Inr recs \<Rightarrow> Inr ((date_of dt, vs) # recs)))))"

text \<open>The distinct dates of the records, each at the place of its first record.\<close>

definition dates_seen :: "(date \<times> pyfloat list) list \<Rightarrow> date list" where
  "dates_seen recs = rev (remdups (rev (map fst recs)))"

text \<open>The values of channel \<open>i\<close> (from 0) in the records of day \<open>d\<close>, in order.\<close>

definition channel :: "nat \<Rightarrow> date \<Rightarrow> (date \<times> pyfloat list) list \<Rightarrow> pyfloat list" where
  "channel i d recs = map (\<lambda>(_, vs). vs ! i) (filter (\<lambda>(d', _). d' = d) recs)"

text \<open>The six totals of a day when the sums are divided by 1000 at the end.\<close>

definition kwh_of_sums :: "date \<Rightarrow> (date \<times> pyfloat list) list \<Rightarrow> kwh6" where
  "kwh_of_sums d recs =
     (div_1000 (fsum (channel 0 d recs)), div_1000 (fsum (channel 1 d recs)),
      div_1000 (fsum (channel 2 d recs)), div_1000 (fsum (channel 3 d recs)),
      div_1000 (fsum (channel 4 d recs)), div_1000 (fsum (channel 5 d recs)))"

text \<open>The six totals of a day when every value is divided by 1000 before it is added.\<close>

definition sums_of_kwh :: "date \<Rightarrow> (date \<times> pyfloat list) list \<Rightarrow> kwh6" where
  "sums_of_kwh d recs =
     (fsum (map div_1000 (channel 0 d recs)), fsum (map div_1000 (channel 1 d recs)),
      fsum (map div_1000 (channel 2 d recs)), fsum (map div_1000 (channel 3 d recs)),
      fsum (map div_1000 (channel 4 d recs)), fsum (map div_1000 (channel 5 d recs)))"

subsection \<open>The conversion done row by row\<close>

text \<open>
  The variant that the specification compares \<open>compute_daily_totals\<close> with: the same
  loop, but every value is divided by 1000 before it is added to the sum of its day, and
  the sums are returned as they are.
\<close>

fun accumulate_per_row ::
  "(date, pyfloat list) dict \<Rightarrow> string list list \<Rightarrow> error + (date, pyfloat list) dict" where
  "accumulate_per_row totals_kwh [] = Inr totals_kwh"
| "accumulate_per_row totals_kwh (row # rows) =
     (if length row < 7 then accumulate_per_row totals_kwh rows
      else
        (case parse_timestamp (row ! 0) of
           Inl e \<Rightarrow> Inl e
         | Inr dt \<Rightarrow>
             (case to_floats (take 6 (drop 1 row)) of
                Inl e \<Rightarrow> Inl e
              | Inr vs \<Rightarrow>
                  accumulate_per_row (add_row totals_kwh (date_of dt) (map div_1000 vs)) rows)))"

definition six_tuple :: "pyfloat list \<Rightarrow> kwh6" where
  "six_tuple vals = (vals ! 0, vals ! 1, vals ! 2, vals ! 3, vals ! 4, vals ! 5)"

definition compute_daily_totals_per_row :: "string list list \<Rightarrow> error + (date, kwh6) dict" where
  "compute_daily_totals_per_row rows =
     (case accumulate_per_row [] rows of
        Inl e \<Rightarrow> Inl e
      | Inr totals_kwh \<Rightarrow> Inr (map (\<lambda>(d, vals). (d, six_tuple vals)) totals_kwh))"

section \<open>Properties\<close>

subsection \<open>Evaluation rules\<close>

lemma floor_rat_numeral: "\<lfloor>numeral a / numeral b :: rat\<rfloor> = numeral a div numeral b"
  by (metis floor_divide_of_int_eq of_int_numeral)

lemma ceiling_rat_numeral: "\<lceil>numeral a / numeral b :: rat\<rceil> = - (- numeral a div numeral b)"
  using ceiling_divide_eq_div [of "numeral a" "numeral b", where ?'a = rat] by simp

lemma replicate_6: "replicate 6 x = [x, x, x, x, x, x]"
  by (simp add: eval_nat_numeral)

lemmas float_eval = round_float_def round_pos_def ilog2_def compute_bitlen pow2_def
  round_half_even_def Let_def floor_rat_numeral ceiling_rat_numeral

lemmas py_float_eval = py_float_def to_float_def strip_def is_space_def replace_char_def
  lower_char_def parse_number_def digitpart_def parse_exponent_def is_digit_def
  nat_of_digits_def digit_val_def pow10_def float_eval

lemmas totals_eval = compute_daily_totals_def date_of_def add_row_def add_at_def
  getitem_default_def to_kwh_def div_1000_def upt_rec replicate_6

lemmas timestamp_eval = parse_timestamp_def strip_def is_space_def replace_char_def
  strptime_hms_def strptime_hm_def re_date_hms_def re_date_hm_def re_month_on_def re_day_on_def re_time_after_def
  re_Y_def re_m_def re_d_def
  re_H_def re_M_def re_S_def re_lit_def re_spaces_def re_digits2_def re_digit1_def is_digit_def
  digit_val_def new_datetime_def days_in_month_def is_leap_def fromisoformat_def
  parse_isoformat_date_def digits_at_def char_at_def nat_of_digits_def

subsection \<open>Every failure is a \<open>ValueError\<close>\<close>

lemma new_datetime_error: "new_datetime y m d H M S us = Inl e \<Longrightarrow> e = ValueError"
  by (simp add: new_datetime_def split: if_splits)

lemma fromisoformat_error: "fromisoformat s = Inl e \<Longrightarrow> e = ValueError"
  by (auto simp: fromisoformat_def split: option.splits prod.splits if_splits
      dest: new_datetime_error)

lemma parse_timestamp_error: "parse_timestamp s = Inl e \<Longrightarrow> e = ValueError"
  by (auto simp: parse_timestamp_def Let_def split: sum.splits dest: fromisoformat_error)

lemma to_float_error: "to_float s = Inl e \<Longrightarrow> e = ValueError"
  by (auto simp: to_float_def py_float_def Let_def split: prod.splits option.splits if_splits)

lemma to_floats_error: "to_floats ss = Inl e \<Longrightarrow> e = ValueError"
  by (induction ss arbitrary: e) (auto split: sum.splits dest: to_float_error)

lemma accumulate_error: "accumulate t rows = Inl e \<Longrightarrow> e = ValueError"
  by (induction rows arbitrary: t)
     (auto split: if_splits sum.splits dest: parse_timestamp_error to_floats_error)

subsection \<open>The loop over the rows\<close>

lemma accumulate_append:
  "accumulate t (xs @ ys) =
     (case accumulate t xs of Inl e \<Rightarrow> Inl e | Inr t' \<Rightarrow> accumulate t' ys)"
  by (induction xs arbitrary: t) (auto split: sum.splits)

lemma accumulate_short_row:
  "length row < 7 \<Longrightarrow> accumulate t (xs @ row # ys) = accumulate t (xs @ ys)"
  by (simp add: accumulate_append split: sum.splits)

lemma accumulate_bad_timestamp:
  "row \<in> set rows \<Longrightarrow> 7 \<le> length row \<Longrightarrow> parse_timestamp (row ! 0) = Inl e
   \<Longrightarrow> accumulate t rows = Inl ValueError"
proof (induction rows arbitrary: t)
  case Nil
  then show ?case by simp
next
  case (Cons r rows)
  show ?case
  proof (cases "accumulate t (r # rows)")
    case (Inl e')
    then show ?thesis using accumulate_error by blast
  next
    case (Inr t')
    with Cons show ?thesis
      by (auto split: if_splits sum.splits)
  qed
qed

subsection \<open>The report never raises\<close>

lemma weekday_name_defined: "\<exists>name. FINNISH_WEEKDAYS (weekday d) = Some name"
proof -
  have "weekday d < 7" by (simp add: weekday_def)
  then have "weekday d \<in> {0, 1, 2, 3, 4, 5, 6}" by auto
  then show ?thesis by (auto simp: FINNISH_WEEKDAYS_def)
qed

lemma report_lines_defined:
  "set ds \<subseteq> fst ` set daily \<Longrightarrow>
   \<exists>ls. report_lines daily ds = Inr ls \<and> length ls = length ds \<and>
     (\<forall>i < length ds. \<exists>name tot. FINNISH_WEEKDAYS (weekday (ds ! i)) = Some name \<and>
        map_of daily (ds ! i) = Some tot \<and> ls ! i = report_line name (ds ! i) tot)"
proof (induction ds)
  case Nil
  then show ?case by simp
next
  case (Cons d ds)
  then obtain ls where ls: "report_lines daily ds = Inr ls" "length ls = length ds"
    "\<forall>i < length ds. \<exists>name tot. FINNISH_WEEKDAYS (weekday (ds ! i)) = Some name \<and>
        map_of daily (ds ! i) = Some tot \<and> ls ! i = report_line name (ds ! i) tot"
    by auto
  obtain name where name: "FINNISH_WEEKDAYS (weekday d) = Some name"
    using weekday_name_defined by blast
  from Cons.prems have "d \<in> fst ` set daily" by simp
  then obtain tot where tot: "map_of daily d = Some tot"
    by (metis domD dom_map_of_conv_image_fst)
  have "report_lines daily (d # ds) = Inr (report_line name d tot # ls)"
    using ls(1) name tot by simp
  moreover have "\<forall>i < length (d # ds). \<exists>name' tot'.
      FINNISH_WEEKDAYS (weekday ((d # ds) ! i)) = Some name' \<and>
      map_of daily ((d # ds) ! i) = Some tot' \<and>
      (report_line name d tot # ls) ! i = report_line name' ((d # ds) ! i) tot'"
  proof (intro allI impI)
    fix i assume "i < length (d # ds)"
    then show "\<exists>name' tot'.
      FINNISH_WEEKDAYS (weekday ((d # ds) ! i)) = Some name' \<and>
      map_of daily ((d # ds) ! i) = Some tot' \<and>
      (report_line name d tot # ls) ! i = report_line name' ((d # ds) ! i) tot'"
      using name tot ls(3) by (cases i) auto
  qed
  ultimately show ?case using ls(2) by simp
qed

subsection \<open>Evaluating the scenario\<close>

lemma replicate_small:
  "replicate 2 x = [x, x]" "replicate 3 x = [x, x, x]" "replicate 4 x = [x, x, x, x]"
  "replicate 5 x = [x, x, x, x, x]"
  by (simp_all add: eval_nat_numeral)

lemmas number_eval = to_finnish_number_def format_2f_def replace_char_def float_eval
  string_of_nat.simps digit_char_def

lemmas weekday_eval = FINNISH_WEEKDAYS_def weekday_def toordinal_def days_before_year_def
  days_before_month_def days_in_month_def is_leap_def upt_rec

lemma scenario_accumulate: "compute_daily_totals scenario_rows = Inr scenario_totals"
  by (simp add: scenario_rows_def scenario_totals_def totals_eval timestamp_eval py_float_eval)

lemma scenario_numbers:
  "to_finnish_number (Finite (3602879701896397 / 18014398509481984)) = ''0,20''"
  "to_finnish_number (Finite (3602879701896397 / 9007199254740992)) = ''0,40''"
  "to_finnish_number (Finite (5404319552844595 / 9007199254740992)) = ''0,60''"
  "to_finnish_number (Finite (3602879701896397 / 36028797018963968)) = ''0,10''"
  "to_finnish_number (Finite (1080863910568919 / 9007199254740992)) = ''0,12''"
  "to_finnish_number (Finite (1261007895663739 / 9007199254740992)) = ''0,14''"
  "to_finnish_number (Finite (1 / 2)) = ''0,50''"
  "to_finnish_number (Finite 0) = ''0,00''"
  by (simp_all add: number_eval)

lemma scenario_weekdays:
  "FINNISH_WEEKDAYS (weekday (2025, 10, 13)) = Some ''maanantai''"
  "FINNISH_WEEKDAYS (weekday (2025, 10, 14)) = Some ''tiistai''"
  by (simp_all add: weekday_eval)

lemma scenario_lines:
  "report_line ''maanantai'' (2025, 10, 13)
     (Finite (3602879701896397 / 18014398509481984), Finite (3602879701896397 / 9007199254740992),
      Finite (5404319552844595 / 9007199254740992), Finite (3602879701896397 / 36028797018963968),
      Finite (1080863910568919 / 9007199254740992), Finite (1261007895663739 / 9007199254740992))
   = ''maanantai    13.10.2025     0,20    0,40    0,60           0,10   0,12   0,14''"
  "report_line ''tiistai'' (2025, 10, 14)
     (Finite (1 / 2), Finite 0, Finite 0, Finite 0, Finite 0, Finite 0)
   = ''tiistai      14.10.2025     0,50    0,00    0,00           0,00   0,00   0,00''"
  by (simp_all add: report_line_def scenario_numbers strftime_dmy_def zfill_def ljust_def
      rjust_def string_of_nat.simps digit_char_def replicate_small)

lemma scenario_report:
  "print_report scenario_totals = Inr (banner @
     [''maanantai    13.10.2025     0,20    0,40    0,60           0,10   0,12   0,14'',
      ''tiistai      14.10.2025     0,50    0,00    0,00           0,00   0,00   0,00''])"
  by (simp add: print_report_def report_dates_def scenario_totals_def scenario_weekdays
      scenario_lines)

lemma scenario_no_header: "remove_header scenario_rows = scenario_rows"
  by (simp add: remove_header_def is_header_row_def scenario_rows_def timestamp_eval)

subsection \<open>The shape of a formatted number\<close>

lemma is_digit_digit_char: "is_digit (digit_char n)"
proof -
  have "n mod 10 < length ''0123456789''" by simp
  then have "''0123456789'' ! (n mod 10) \<in> set ''0123456789''" by (rule nth_mem)
  then show ?thesis by (simp only: is_digit_def digit_char_def)
qed

lemma string_of_nat_digits:
  "string_of_nat n \<noteq> [] \<and> (\<forall>c \<in> set (string_of_nat n). is_digit c)"
proof (induction n rule: string_of_nat.induct)
  case (1 n)
  show ?case
  proof (cases "n < 10")
    case True
    then have "string_of_nat n = [digit_char n]" by (subst string_of_nat.simps) simp
    then show ?thesis by (simp add: is_digit_digit_char)
  next
    case False
    then have "string_of_nat n = string_of_nat (n div 10) @ [digit_char n]"
      by (subst string_of_nat.simps) simp
    with 1 False show ?thesis by (simp add: is_digit_digit_char)
  qed
qed

lemma digit_not_point: "is_digit c \<Longrightarrow> c \<noteq> CHR ''.''"
  by (auto simp: is_digit_def)

lemma replace_point_digits:
  "\<forall>c \<in> set ds. is_digit c \<Longrightarrow> replace_char CHR ''.'' CHR '','' ds = ds"
  unfolding replace_char_def by (rule map_idI) (simp add: digit_not_point)

lemma replace_char_append:
  "replace_char a b (xs @ ys) = replace_char a b xs @ replace_char a b ys"
  by (simp add: replace_char_def)

lemma to_finnish_number_Finite:
  "to_finnish_number (Finite r) =
     (if r < 0 then ''-'' else []) @ string_of_nat (nat (round_half_even (\<bar>r\<bar> * 100)) div 100)
       @ [CHR '','', digit_char (nat (round_half_even (\<bar>r\<bar> * 100)) div 10),
          digit_char (nat (round_half_even (\<bar>r\<bar> * 100)))]"
proof -
  define n where "n = nat (round_half_even (\<bar>r\<bar> * 100))"
  have ds: "replace_char CHR ''.'' CHR '','' (string_of_nat (n div 100)) = string_of_nat (n div 100)"
    using string_of_nat_digits [of "n div 100"] by (simp add: replace_point_digits)
  have sg: "replace_char CHR ''.'' CHR '','' (if r < 0 then ''-'' else [])
      = (if r < 0 then ''-'' else [])"
    by (simp add: replace_char_def)
  have tl: "replace_char CHR ''.'' CHR '','' [CHR ''.'', digit_char (n div 10), digit_char n]
      = [CHR '','', digit_char (n div 10), digit_char n]"
    using digit_not_point [OF is_digit_digit_char, of "n div 10"]
      digit_not_point [OF is_digit_digit_char, of n]
    by (simp add: replace_char_def)
  have "format_2f (Finite r) =
      (if r < 0 then ''-'' else []) @ string_of_nat (n div 100)
        @ [CHR ''.'', digit_char (n div 10), digit_char n]"
    by (simp add: format_2f_def Let_def n_def)
  then have "to_finnish_number (Finite r) =
      (if r < 0 then ''-'' else []) @ string_of_nat (n div 100)
        @ [CHR '','', digit_char (n div 10), digit_char n]"
    by (simp only: to_finnish_number_def replace_char_append sg ds tl)
  then show ?thesis by (simp only: n_def)
qed

lemma to_finnish_number_NegZero:
  "to_finnish_number NegZero = ''-'' @ ''0'' @ [CHR '','', CHR ''0'', CHR ''0'']"
  by (simp add: to_finnish_number_def format_2f_def replace_char_def)

lemma twelve_point_three:
  "py_float ''12.3'' = Inr (Finite (3462142213541069 / 281474976710656))"
  by (simp add: py_float_eval)

lemma twelve_point_three_number:
  "to_finnish_number (Finite (3462142213541069 / 281474976710656)) = ''12,30''"
  by (simp add: number_eval)

subsection \<open>A date without a time\<close>

text \<open>
  Both \<open>strptime\<close> formats ask for a time after the day, so ten characters
  \<open>dddd-dd-dd\<close> match neither, whichever way the regular expression splits the
  digits of the month and the day.
\<close>

lemma digit_not_space: "is_digit c \<Longrightarrow> \<not> is_space c"
  by (auto simp: is_digit_def is_space_def)

lemma digit_not_special:
  "is_digit c \<Longrightarrow> c \<noteq> CHR ''-'' \<and> c \<noteq> CHR ''T'' \<and> c \<noteq> CHR '' ''"
  by (auto simp: is_digit_def)

lemma bind_empty: "(\<And>x. x \<in> set xs \<Longrightarrow> f x = []) \<Longrightarrow> List.bind xs f = []"
  by (induction xs) simp_all

lemma re_m_rest:
  "(v, r) \<in> set (re_m (e # f # rest)) \<Longrightarrow> r = rest \<or> r = f # rest"
  by (auto simp: re_m_def re_digits2_def re_digit1_def split: if_splits)

lemma re_d_rest:
  "is_digit g \<Longrightarrow> (v, r) \<in> set (re_d [g, h]) \<Longrightarrow> r = [] \<or> r = [h]"
  by (auto simp: re_d_def re_digits2_def re_digit1_def split: if_splits dest: digit_not_special)

lemma re_time_after_digit:
  "re_time_after y m d [] = []" "is_digit h \<Longrightarrow> re_time_after y m d [h] = []"
  by (simp_all add: re_time_after_def re_spaces_def digit_not_space)

lemma re_day_on_bare:
  assumes "is_digit g" "is_digit h"
  shows "re_day_on y m [g, h] = []"
  unfolding re_day_on_def
proof (rule bind_empty)
  fix x assume mem: "x \<in> set (re_d [g, h])"
  obtain v r where x: "x = (v, r)" by (cases x)
  from mem x have "(v, r) \<in> set (re_d [g, h])" by simp
  then have "r = [] \<or> r = [h]" using re_d_rest [OF assms(1)] by blast
  then show "(case x of (d, s5) \<Rightarrow> re_time_after y m d s5) = []"
    using x assms(2) by (auto simp: re_time_after_digit)
qed

lemma re_month_on_bare:
  assumes "is_digit f" "is_digit g" "is_digit h"
  shows "re_month_on y [e, f, CHR ''-'', g, h] = []"
  unfolding re_month_on_def
proof (rule bind_empty)
  fix x assume mem: "x \<in> set (re_m [e, f, CHR ''-'', g, h])"
  obtain v r where x: "x = (v, r)" by (cases x)
  from mem x have "(v, r) \<in> set (re_m [e, f, CHR ''-'', g, h])" by simp
  then have "r = [CHR ''-'', g, h] \<or> r = [f, CHR ''-'', g, h]" using re_m_rest by blast
  then show "(case x of (m, s3) \<Rightarrow>
      List.bind (re_lit CHR ''-'' s3) (\<lambda>(_, s4). re_day_on y m s4)) = []"
    using x assms by (auto simp: re_lit_def re_day_on_bare digit_not_special)
qed

lemma re_date_hm_bare:
  "is_digit f \<Longrightarrow> is_digit g \<Longrightarrow> is_digit h \<Longrightarrow>
   re_date_hm [a, b, c, d, CHR ''-'', e, f, CHR ''-'', g, h] = []"
  by (simp add: re_date_hm_def re_Y_def re_lit_def re_month_on_bare)

lemma strptime_bare:
  assumes "is_digit f" "is_digit g" "is_digit h"
  shows "strptime_hm [a, b, c, d, CHR ''-'', e, f, CHR ''-'', g, h] = Inl ValueError"
    and "strptime_hms [a, b, c, d, CHR ''-'', e, f, CHR ''-'', g, h] = Inl ValueError"
  using assms by (simp_all add: strptime_hm_def strptime_hms_def re_date_hms_def re_date_hm_bare)

lemma fromisoformat_bare:
  assumes "is_digit a" "is_digit b" "is_digit c" "is_digit d" "is_digit e" "is_digit f"
    "is_digit g" "is_digit h"
    and "valid_date (nat_of_digits [a, b, c, d]) (nat_of_digits [e, f]) (nat_of_digits [g, h])"
  shows "fromisoformat [a, b, c, d, CHR ''-'', e, f, CHR ''-'', g, h] =
     Inr \<lparr>dt_year = nat_of_digits [a, b, c, d], dt_month = nat_of_digits [e, f],
          dt_day = nat_of_digits [g, h], dt_hour = 0, dt_minute = 0, dt_second = 0,
          dt_microsecond = 0\<rparr>"
  using assms
  by (simp add: fromisoformat_def parse_isoformat_date_def digits_at_def char_at_def
      new_datetime_def valid_date_def)

lemma strip_bare:
  "is_digit a \<Longrightarrow> is_digit h \<Longrightarrow>
   strip [a, b, c, d, CHR ''-'', e, f, CHR ''-'', g, h] = [a, b, c, d, CHR ''-'', e, f, CHR ''-'', g, h]"
  by (simp add: strip_def digit_not_space)

lemma replace_bare:
  "is_digit a \<Longrightarrow> is_digit b \<Longrightarrow> is_digit c \<Longrightarrow> is_digit d \<Longrightarrow> is_digit e \<Longrightarrow> is_digit f \<Longrightarrow>
   is_digit g \<Longrightarrow> is_digit h \<Longrightarrow>
   replace_char CHR ''T'' CHR '' '' [a, b, c, d, CHR ''-'', e, f, CHR ''-'', g, h]
     = [a, b, c, d, CHR ''-'', e, f, CHR ''-'', g, h]"
  by (simp add: replace_char_def digit_not_special)


lemma parse_timestamp_bare:
  assumes "is_digit a" "is_digit b" "is_digit c" "is_digit d" "is_digit e" "is_digit f"
    "is_digit g" "is_digit h"
    and "valid_date (nat_of_digits [a, b, c, d]) (nat_of_digits [e, f]) (nat_of_digits [g, h])"
  shows "parse_timestamp [a, b, c, d, CHR ''-'', e, f, CHR ''-'', g, h] =
     Inr \<lparr>dt_year = nat_of_digits [a, b, c, d], dt_month = nat_of_digits [e, f],
          dt_day = nat_of_digits [g, h], dt_hour = 0, dt_minute = 0, dt_second = 0,
          dt_microsecond = 0\<rparr>"
  unfolding parse_timestamp_def
  using assms by (simp add: strip_bare replace_bare strptime_bare fromisoformat_bare)

subsection \<open>Rows of the wrong shape and rows with a bad timestamp\<close>

text \<open>
  C6. A row with fewer than 7 fields is skipped: wherever it stands among the rows and
  whatever it holds, the aggregation gives the result it gives without that row, be it
  the totals or the failure of another row.
\<close>

theorem short_row_skipped:
  "length row < 7 \<Longrightarrow> compute_daily_totals (xs @ row # ys) = compute_daily_totals (xs @ ys)"
  by (simp add: compute_daily_totals_def accumulate_short_row)

theorem short_row_skipped_witness:
  "length [''no timestamp'', ''12,5'', ''x''] < 7 \<and>
   compute_daily_totals ([] @ [''no timestamp'', ''12,5'', ''x''] # []) = compute_daily_totals ([] @ [])"
  using short_row_skipped [of "[''no timestamp'', ''12,5'', ''x'']" "[]" "[]"] by simp

text \<open>
  C3, as stated, fails: the length check of line 101 comes before the timestamp is
  parsed, so a row with fewer than 7 fields and an unparseable first field is skipped and
  the run goes on to aggregate the rows after it.
\<close>

theorem bad_timestamp_short_row_counterexample:
  "parse_timestamp ''Timestamp'' = Inl ValueError \<and>
   compute_daily_totals
     [[''Timestamp'', ''kWh''],
      [''2025-10-14 00:00:00'', ''500'', ''0'', ''0'', ''0'', ''0'', ''0'']]
   = Inr [((2025, 10, 14), (Finite (1 / 2), Finite 0, Finite 0, Finite 0, Finite 0, Finite 0))]"
  by (simp add: totals_eval timestamp_eval py_float_eval)

text \<open>
  C3, amended. A row with at least 7 fields whose first field \<open>parse_timestamp\<close> rejects
  makes the aggregation fail with a \<open>ValueError\<close>, wherever the row stands: no totals
  are returned for any row.
\<close>

theorem bad_timestamp_aborts:
  "row \<in> set rows \<Longrightarrow> 7 \<le> length row \<Longrightarrow> parse_timestamp (row ! 0) = Inl e
   \<Longrightarrow> compute_daily_totals rows = Inl ValueError"
  by (simp add: compute_daily_totals_def accumulate_bad_timestamp)

theorem bad_timestamp_aborts_witness:
  "[''13/10/2025'', ''1'', ''2'', ''3'', ''4'', ''5'', ''6'']
     \<in> set [[''2025-10-14 00:00:00'', ''500'', ''0'', ''0'', ''0'', ''0'', ''0''],
            [''13/10/2025'', ''1'', ''2'', ''3'', ''4'', ''5'', ''6'']] \<and>
   7 \<le> length [''13/10/2025'', ''1'', ''2'', ''3'', ''4'', ''5'', ''6''] \<and>
   parse_timestamp ([''13/10/2025'', ''1'', ''2'', ''3'', ''4'', ''5'', ''6''] ! 0) = Inl ValueError \<and>
   compute_daily_totals
     [[''2025-10-14 00:00:00'', ''500'', ''0'', ''0'', ''0'', ''0'', ''0''],
      [''13/10/2025'', ''1'', ''2'', ''3'', ''4'', ''5'', ''6'']] = Inl ValueError"
proof -
  have p: "parse_timestamp ([''13/10/2025'', ''1'', ''2'', ''3'', ''4'', ''5'', ''6''] ! 0) = Inl ValueError"
    by (simp add: timestamp_eval)
  show ?thesis
    using p bad_timestamp_aborts [OF _ _ p,
        of "[[''2025-10-14 00:00:00'', ''500'', ''0'', ''0'', ''0'', ''0'', ''0''],
            [''13/10/2025'', ''1'', ''2'', ''3'', ''4'', ''5'', ''6'']]"]
    by simp
qed

subsection \<open>The header row\<close>

text \<open>
  C5. For a non-empty list of rows whose first row has a first field, that row is taken
  for a header exactly when \<open>parse_timestamp\<close> fails on its first field; a header is
  dropped before the aggregation, and a first row whose first field parses stays among
  the rows that \<open>compute_daily_totals\<close> receives.
\<close>

theorem header_row_classification:
  "rows \<noteq> [] \<Longrightarrow> hd rows \<noteq> [] \<Longrightarrow>
   (is_header_row (rows ! 0) \<longleftrightarrow> (\<exists>e. parse_timestamp (hd rows ! 0) = Inl e)) \<and>
   remove_header rows = (if \<exists>e. parse_timestamp (hd rows ! 0) = Inl e then tl rows else rows) \<and>
   main rows = (case compute_daily_totals (remove_header rows) of
                  Inl e \<Rightarrow> Inl e | Inr daily \<Rightarrow> print_report daily)"
  by (cases rows; cases "hd rows")
     (auto simp: remove_header_def is_header_row_def main_def drop_Suc split: sum.splits)

theorem header_row_classification_witness:
  "[[''Time'', ''c1''], [''2025-10-13 00:00'', ''c1'']] \<noteq> [] \<and>
   hd [[''Time'', ''c1''], [''2025-10-13 00:00'', ''c1'']] \<noteq> [] \<and>
   remove_header [[''Time'', ''c1''], [''2025-10-13 00:00'', ''c1'']] = [[''2025-10-13 00:00'', ''c1'']] \<and>
   [[''2025-10-13 00:00'', ''c1'']] \<noteq> [] \<and> hd [[''2025-10-13 00:00'', ''c1'']] \<noteq> [] \<and>
   remove_header [[''2025-10-13 00:00'', ''c1'']] = [[''2025-10-13 00:00'', ''c1'']]"
proof -
  have a: "parse_timestamp ''Time'' = Inl ValueError"
    by (simp add: timestamp_eval)
  have b: "parse_timestamp ''2025-10-13 00:00'' =
      Inr \<lparr>dt_year = 2025, dt_month = 10, dt_day = 13, dt_hour = 0, dt_minute = 0,
            dt_second = 0, dt_microsecond = 0\<rparr>"
    by (simp add: timestamp_eval)
  show ?thesis
    using header_row_classification [of "[[''Time'', ''c1''], [''2025-10-13 00:00'', ''c1'']]"]
      header_row_classification [of "[[''2025-10-13 00:00'', ''c1'']]"] a b
    by simp
qed

subsection \<open>The order of the report\<close>

text \<open>
  C7. For every dictionary of daily totals (its keys are distinct), the report prints,
  after the banner, one line per date, and the dates of these lines are the keys in
  strictly ascending order, whatever the order in which the keys were inserted.
\<close>

theorem report_dates_ascending:
  "distinct (map fst daily) \<Longrightarrow>
   sorted_wrt (<) (report_dates daily) \<and> set (report_dates daily) = fst ` set daily \<and>
   (\<exists>ls. print_report daily = Inr (banner @ ls) \<and> length ls = length (report_dates daily) \<and>
      (\<forall>i < length ls. \<exists>name tot.
         FINNISH_WEEKDAYS (weekday (report_dates daily ! i)) = Some name \<and>
         map_of daily (report_dates daily ! i) = Some tot \<and>
         ls ! i = report_line name (report_dates daily ! i) tot))"
proof -
  assume dist: "distinct (map fst daily)"
  have "sorted (report_dates daily)" "distinct (report_dates daily)"
    using dist by (simp_all add: report_dates_def)
  then have 1: "sorted_wrt (<) (report_dates daily)"
    by (simp add: strict_sorted_iff)
  have 2: "set (report_dates daily) = fst ` set daily"
    by (simp add: report_dates_def)
  from report_lines_defined [of "report_dates daily" daily] 2
  obtain ls where "report_lines daily (report_dates daily) = Inr ls"
    "length ls = length (report_dates daily)"
    "\<forall>i < length (report_dates daily). \<exists>name tot.
         FINNISH_WEEKDAYS (weekday (report_dates daily ! i)) = Some name \<and>
         map_of daily (report_dates daily ! i) = Some tot \<and>
         ls ! i = report_line name (report_dates daily ! i) tot"
    by auto
  then have "print_report daily = Inr (banner @ ls) \<and> length ls = length (report_dates daily) \<and>
      (\<forall>i < length ls. \<exists>name tot.
         FINNISH_WEEKDAYS (weekday (report_dates daily ! i)) = Some name \<and>
         map_of daily (report_dates daily ! i) = Some tot \<and>
         ls ! i = report_line name (report_dates daily ! i) tot)"
    by (simp add: print_report_def)
  with 1 2 show ?thesis by blast
qed

theorem report_dates_ascending_witness:
  "distinct (map fst [((2025, 10, 14) :: date, (NaN, NaN, NaN, NaN, NaN, NaN)),
                      ((2025, 10, 13), (NaN, NaN, NaN, NaN, NaN, NaN))]) \<and>
   report_dates [((2025, 10, 14), (NaN, NaN, NaN, NaN, NaN, NaN)),
                 ((2025, 10, 13), (NaN, NaN, NaN, NaN, NaN, NaN))]
     = [(2025, 10, 13), (2025, 10, 14)] \<and>
   sorted_wrt (<) (report_dates [((2025, 10, 14), (NaN, NaN, NaN, NaN, NaN, NaN)),
                                 ((2025, 10, 13), (NaN, NaN, NaN, NaN, NaN, NaN))])"
  using report_dates_ascending [of "[((2025, 10, 14), (NaN, NaN, NaN, NaN, NaN, NaN)),
                                     ((2025, 10, 13), (NaN, NaN, NaN, NaN, NaN, NaN))]"]
  by (simp add: report_dates_def)

subsection \<open>The end-to-end scenario\<close>

text \<open>
  C1. On the three rows of the scenario the aggregation returns, in this order, the
  totals of 2025-10-13 and of 2025-10-14, which are the floats that the literals
  0.20, 0.40, 0.60, 0.10, 0.12, 0.14 and 0.50, 0.00, 0.00, 0.00, 0.00, 0.00 denote; and
  the program prints, after the banner, the line of 2025-10-13 with the weekday
  "maanantai" and then the line of 2025-10-14 with the weekday "tiistai".
\<close>

theorem scenario_end_to_end:
  "compute_daily_totals scenario_rows = Inr scenario_totals \<and>
   map fst scenario_totals = [(2025, 10, 13), (2025, 10, 14)] \<and>
   to_floats [''0.20'', ''0.40'', ''0.60'', ''0.10'', ''0.12'', ''0.14''] =
     Inr (case snd (scenario_totals ! 0) of (c1, c2, c3, p1, p2, p3) \<Rightarrow> [c1, c2, c3, p1, p2, p3]) \<and>
   to_floats [''0.50'', ''0.00'', ''0.00'', ''0.00'', ''0.00'', ''0.00''] =
     Inr (case snd (scenario_totals ! 1) of (c1, c2, c3, p1, p2, p3) \<Rightarrow> [c1, c2, c3, p1, p2, p3]) \<and>
   main scenario_rows = Inr (banner @
     [''maanantai    13.10.2025     0,20    0,40    0,60           0,10   0,12   0,14'',
      ''tiistai      14.10.2025     0,50    0,00    0,00           0,00   0,00   0,00''])"
proof -
  have "to_floats [''0.20'', ''0.40'', ''0.60'', ''0.10'', ''0.12'', ''0.14''] =
     Inr (case snd (scenario_totals ! 0) of (c1, c2, c3, p1, p2, p3) \<Rightarrow> [c1, c2, c3, p1, p2, p3])"
    by (simp add: scenario_totals_def py_float_eval)
  moreover have "to_floats [''0.50'', ''0.00'', ''0.00'', ''0.00'', ''0.00'', ''0.00''] =
     Inr (case snd (scenario_totals ! 1) of (c1, c2, c3, p1, p2, p3) \<Rightarrow> [c1, c2, c3, p1, p2, p3])"
    by (simp add: scenario_totals_def py_float_eval)
  moreover have "map fst scenario_totals = [(2025, 10, 13), (2025, 10, 14)]"
    by (simp add: scenario_totals_def)
  moreover have "main scenario_rows = Inr (banner @
     [''maanantai    13.10.2025     0,20    0,40    0,60           0,10   0,12   0,14'',
      ''tiistai      14.10.2025     0,50    0,00    0,00           0,00   0,00   0,00''])"
    by (simp add: main_def scenario_no_header scenario_accumulate scenario_report)
  ultimately show ?thesis
    using scenario_accumulate by simp
qed

subsection \<open>The numeric formatter\<close>

text \<open>
  C9, as stated, fails: a field \<open>nan\<close> of the input is a float, stays not-a-number
  through the sum and the division, and is rendered as \<open>nan\<close>, with no decimal digit
  and no comma (the infinities are rendered as \<open>inf\<close> and \<open>-inf\<close>).
\<close>

theorem nan_number_counterexample:
  "to_float ''nan'' = Inr NaN \<and> fadd (Finite 0) NaN = NaN \<and> div_1000 NaN = NaN \<and>
   to_finnish_number NaN = ''nan''"
  by (simp add: py_float_eval div_1000_def to_finnish_number_def format_2f_def)

text \<open>
  C9, amended. For every finite kilowatt-hour value the formatter gives an optional
  minus sign, at least one decimal digit, a comma and exactly two decimal digits; the
  float 12.3 is rendered as "12,30" and 0.0 as "0,00".
\<close>

theorem finite_number_two_decimals:
  "is_finite x \<Longrightarrow>
   (\<exists>sign ds d1 d2. to_finnish_number x = sign @ ds @ [CHR '','', d1, d2] \<and>
      (sign = [] \<or> sign = ''-'') \<and> ds \<noteq> [] \<and> (\<forall>c \<in> set ds. is_digit c) \<and>
      is_digit d1 \<and> is_digit d2) \<and>
   map_sum id to_finnish_number (py_float ''12.3'') = Inr ''12,30'' \<and>
   to_finnish_number (Finite 0) = ''0,00''"
proof -
  assume fin: "is_finite x"
  have shape: "\<exists>sign ds d1 d2. to_finnish_number x = sign @ ds @ [CHR '','', d1, d2] \<and>
      (sign = [] \<or> sign = ''-'') \<and> ds \<noteq> [] \<and> (\<forall>c \<in> set ds. is_digit c) \<and>
      is_digit d1 \<and> is_digit d2"
  proof (cases x)
    case (Finite r)
    define n where "n = nat (round_half_even (\<bar>r\<bar> * 100))"
    have eq: "to_finnish_number x =
        (if r < 0 then ''-'' else []) @ string_of_nat (n div 100)
          @ [CHR '','', digit_char (n div 10), digit_char n]"
      by (simp only: Finite n_def to_finnish_number_Finite)
    have sg: "(if r < 0 then ''-'' else []) = [] \<or> (if r < 0 then ''-'' else []) = ''-''"
      by simp
    have ds: "string_of_nat (n div 100) \<noteq> []"
      "\<forall>c \<in> set (string_of_nat (n div 100)). is_digit c"
      using string_of_nat_digits [of "n div 100"] by simp_all
    from eq sg ds is_digit_digit_char [of "n div 10"] is_digit_digit_char [of n]
    show ?thesis by (intro exI conjI)
  next
    case NegZero
    have z: "is_digit CHR ''0''" by (simp add: is_digit_def)
    have "to_finnish_number x = ''-'' @ ''0'' @ [CHR '','', CHR ''0'', CHR ''0'']"
      by (simp only: NegZero to_finnish_number_NegZero)
    moreover have "''-'' = [] \<or> ''-'' = ''-''" by simp
    moreover have "''0'' \<noteq> []" by simp
    moreover have "\<forall>c \<in> set ''0''. is_digit c" using z by simp
    ultimately show ?thesis using z by (intro exI conjI)
  next
    case PosInf
    with fin show ?thesis by (simp add: is_finite_def)
  next
    case NegInf
    with fin show ?thesis by (simp add: is_finite_def)
  next
    case NaN
    with fin show ?thesis by (simp add: is_finite_def)
  qed
  have "map_sum id to_finnish_number (py_float ''12.3'') = Inr ''12,30''"
    by (simp only: twelve_point_three twelve_point_three_number map_sum.simps)
  moreover have "to_finnish_number (Finite 0) = ''0,00''"
    by (rule scenario_numbers)
  ultimately show ?thesis using shape by blast
qed

theorem finite_number_two_decimals_witness:
  "is_finite (Finite (- 1 / 8)) \<and> to_finnish_number (Finite (- 1 / 8)) = ''-0,12'' \<and>
   (\<exists>sign ds d1 d2. to_finnish_number (Finite (- 1 / 8)) = sign @ ds @ [CHR '','', d1, d2] \<and>
      (sign = [] \<or> sign = ''-'') \<and> ds \<noteq> [] \<and> (\<forall>c \<in> set ds. is_digit c) \<and>
      is_digit d1 \<and> is_digit d2)"
proof -
  have f: "is_finite (Finite (- 1 / 8))" by (simp add: is_finite_def)
  have n: "to_finnish_number (Finite (- 1 / 8)) = ''-0,12''" by (simp add: number_eval)
  from finite_number_two_decimals [OF f] f n show ?thesis by blast
qed

subsection \<open>A first row that starts with a bare date\<close>

text \<open>
  C10, as stated, fails: \<open>2025-02-30\<close> has the form \<open>YYYY-MM-DD\<close>, but
  \<open>fromisoformat\<close> rejects the day 30 of February like the two \<open>strptime\<close>
  formats reject the missing time, so \<open>parse_timestamp\<close> raises and a first row
  that starts with this field is taken for a header and dropped.
\<close>

theorem invalid_bare_date_counterexample:
  "parse_timestamp ''2025-02-30'' = Inl ValueError \<and>
   is_header_row [''2025-02-30'', ''100'', ''200'', ''300'', ''50'', ''60'', ''70''] \<and>
   remove_header [[''2025-02-30'', ''100'', ''200'', ''300'', ''50'', ''60'', ''70'']] = []"
  by (simp add: remove_header_def is_header_row_def timestamp_eval)

text \<open>
  C10, amended. For four, two and two decimal digits that denote a calendar date (year 1
  to 9999, month 1 to 12, a day of that month), the string \<open>YYYY-MM-DD\<close> matches
  neither \<open>strptime\<close> format, \<open>parse_timestamp\<close> returns what the
  \<open>fromisoformat\<close> fallback returns, midnight of that date, and a first row that
  starts with this field is not a header: it stays among the rows that are aggregated.
\<close>

theorem bare_date_is_data:
  assumes "is_digit a" "is_digit b" "is_digit c" "is_digit d" "is_digit e" "is_digit f"
    "is_digit g" "is_digit h"
    and "valid_date (nat_of_digits [a, b, c, d]) (nat_of_digits [e, f]) (nat_of_digits [g, h])"
    and "ts = [a, b, c, d, CHR ''-'', e, f, CHR ''-'', g, h]"
  shows "strptime_hms ts = Inl ValueError \<and> strptime_hm ts = Inl ValueError \<and>
     parse_timestamp ts = fromisoformat ts \<and>
     fromisoformat ts =
       Inr \<lparr>dt_year = nat_of_digits [a, b, c, d], dt_month = nat_of_digits [e, f],
            dt_day = nat_of_digits [g, h], dt_hour = 0, dt_minute = 0, dt_second = 0,
            dt_microsecond = 0\<rparr> \<and>
     \<not> is_header_row (ts # rest) \<and>
     remove_header ((ts # rest) # rows) = (ts # rest) # rows"
  using assms
  by (simp add: strptime_bare fromisoformat_bare parse_timestamp_bare is_header_row_def
      remove_header_def)

theorem bare_date_is_data_witness:
  "is_digit CHR ''2'' \<and> is_digit CHR ''0'' \<and> is_digit CHR ''5'' \<and> is_digit CHR ''1'' \<and>
   is_digit CHR ''3'' \<and>
   valid_date (nat_of_digits ''2025'') (nat_of_digits ''10'') (nat_of_digits ''13'') \<and>
   parse_timestamp ''2025-10-13'' =
     Inr \<lparr>dt_year = 2025, dt_month = 10, dt_day = 13, dt_hour = 0, dt_minute = 0,
          dt_second = 0, dt_microsecond = 0\<rparr> \<and>
   \<not> is_header_row [''2025-10-13'', ''100'', ''200'', ''300'', ''50'', ''60'', ''70''] \<and>
   remove_header [[''2025-10-13'', ''100'', ''200'', ''300'', ''50'', ''60'', ''70'']] =
     [[''2025-10-13'', ''100'', ''200'', ''300'', ''50'', ''60'', ''70'']]"
proof -
  have dg: "is_digit CHR ''2''" "is_digit CHR ''0''" "is_digit CHR ''5''" "is_digit CHR ''1''"
    "is_digit CHR ''3''"
    by (simp_all add: is_digit_def)
  have n: "nat_of_digits ''2025'' = 2025" "nat_of_digits ''10'' = 10" "nat_of_digits ''13'' = 13"
    by (simp_all add: nat_of_digits_def digit_val_def)
  have v: "valid_date (nat_of_digits ''2025'') (nat_of_digits ''10'') (nat_of_digits ''13'')"
    by (simp add: n valid_date_def days_in_month_def)
  show ?thesis
    using dg v n
      bare_date_is_data [OF dg(1) dg(2) dg(1) dg(3) dg(4) dg(2) dg(4) dg(5) v refl,
        of "[''100'', ''200'', ''300'', ''50'', ''60'', ''70'']" "[]"]
    by simp
qed

end
